theory Spec2Isabelle
  imports Complex_Main "HOL-Library.Word"
begin

unbundle bit_operations_syntax

section \<open>Buffers\<close>

text \<open>
  Node \<open>Buffer\<close>s and \<open>Uint8Array\<close>s are mutable byte arrays that the code fills with
  zeros in place, so the buffers that carry secret bytes live in an explicit memory: a
  list of buffers, a buffer's address being its index. \<open>Buffer.from(uint8Array)\<close>,
  \<open>new Uint8Array(buffer)\<close> and \<open>crypto.pbkdf2Sync\<close> each return a new buffer
  (\<open>alloc\<close>); \<open>buf.fill(0)\<close> overwrites every byte of one buffer (\<open>fill0\<close>).
  Salt, IV, ciphertext and authentication tag are not secret and are never zeroed by the
  code; they are plain values.
\<close>

type_synonym byte = "8 word"
type_synonym addr = nat
type_synonym memory = "byte list list"

definition alloc :: "memory \<Rightarrow> byte list \<Rightarrow> memory \<times> addr" where
  "alloc m bs = (m @ [bs], length m)"

definition readBuf :: "memory \<Rightarrow> addr \<Rightarrow> byte list" where
  "readBuf m a = (if a < length m then m ! a else [])"

definition fill0 :: "memory \<Rightarrow> addr \<Rightarrow> memory" where
  "fill0 m a = (if a < length m then m[a := replicate (length (m ! a)) 0] else m)"

definition zeroed :: "byte list \<Rightarrow> bool" where
  "zeroed bs \<longleftrightarrow> bs = replicate (length bs) 0"

section \<open>Hex strings\<close>

text \<open>
  \<open>buf.toString('hex')\<close> writes two lower-case digits per byte;
  \<open>Buffer.from(s, 'hex')\<close> reads pairs of digits of either case and stops at the first
  pair that is not two hex digits.
\<close>

definition hexDigit :: "nat \<Rightarrow> char" where
  "hexDigit n = ''0123456789abcdef'' ! (n mod 16)"

definition hexVal :: "char \<Rightarrow> nat option" where
  "hexVal c =
     (if c \<in> set ''0123456789'' then Some (of_char c - 48)
      else if c \<in> set ''abcdef'' then Some (of_char c - 87)
      else if c \<in> set ''ABCDEF'' then Some (of_char c - 55)
      else None)"

definition toHex :: "byte list \<Rightarrow> string" where
  "toHex bs = concat (map (\<lambda>b. [hexDigit (unat b div 16), hexDigit (unat b mod 16)]) bs)"

fun fromHex :: "string \<Rightarrow> byte list" where
  "fromHex (c # d # cs) =
     (case hexVal c of
        None \<Rightarrow> []
      | Some h \<Rightarrow>
          (case hexVal d of
             None \<Rightarrow> []
           | Some l \<Rightarrow> word_of_nat (16 * h + l) # fromHex cs))"
| "fromHex cs = []"

section \<open>SecureKeyStore\<close>

text \<open>
  The primitives of Node's \<open>crypto\<close> module are not part of the repository; the store is
  parameterised over them. \<open>pbkdf2\<close> is \<open>pbkdf2Sync(password, salt, 100000, 32,
  'sha256')\<close>; \<open>gcmEncrypt key iv plain\<close> is the ciphertext and the authentication tag of
  an \<open>aes-256-gcm\<close> cipher; \<open>gcmDecrypt key iv tag cipher\<close> is \<open>None\<close> where the
  decipher throws (wrong key, altered tag or ciphertext, malformed tag).
\<close>

record crypto =
  pbkdf2 :: "string \<Rightarrow> byte list \<Rightarrow> byte list"
  gcmEncrypt :: "byte list \<Rightarrow> byte list \<Rightarrow> byte list \<Rightarrow> byte list \<times> byte list"
  gcmDecrypt :: "byte list \<Rightarrow> byte list \<Rightarrow> byte list \<Rightarrow> byte list \<Rightarrow> byte list option"

text \<open>What AES-GCM guarantees: decrypting under the same key, IV and tag gives the plaintext back.\<close>

definition gcmInverse :: "crypto \<Rightarrow> bool" where
  "gcmInverse c \<longleftrightarrow>
     (\<forall>k v p. gcmDecrypt c k v (snd (gcmEncrypt c k v p)) (fst (gcmEncrypt c k v p)) = Some p)"

datatype jsonValue = JString string | JNumber int

type_synonym metadataMap = "(string \<times> jsonValue) list"

record EncryptedKeyData =
  version :: int
  algorithm :: string
  iv :: string
  salt :: string
  authTag :: string
  encryptedKey :: string
  publicKey :: string
  createdAt :: int
  metadata :: "metadataMap option"

definition ALGORITHM :: string where
  "ALGORITHM = ''aes-256-gcm''"

definition VERSION :: int where
  "VERSION = 1"

text \<open>
  The store object with the world it acts on: its directory (\<open>storePath\<close>), the files
  of the file system that hold a key record (each file as the record
  \<open>JSON.parse\<close> reads from it), and the memory of secret buffers. \<open>retrieveLog\<close> is
  instrumentation: \<open>retrieveKey\<close> appends the wallet id it was called with, so that
  "retrieveKey was not invoked" is a statement about the state.
\<close>

record KeyStoreState =
  storePath :: string
  files :: "string \<rightharpoonup> EncryptedKeyData"
  mem :: memory
  retrieveLog :: "string list"

datatype storeError =
    WalletNotFound string
  | UnsupportedVersion int
  | InvalidPasswordOrCorrupted

text \<open>
  \<open>walletId.replace(/[^a-zA-Z0-9-_]/g, '_')\<close>: every character other than an ASCII
  letter, a digit, \<open>-\<close> and \<open>_\<close> becomes \<open>_\<close>. JavaScript does this on UTF-16 code
  units; a wallet id is a string of 8-bit characters here. The file is
  \<open>path.join(storePath, safeId + '.encrypted.json')\<close>.
\<close>

definition safeChar :: "char \<Rightarrow> bool" where
  "safeChar c \<longleftrightarrow>
     c \<in> set (''abcdefghijklmnopqrstuvwxyz'' @ ''ABCDEFGHIJKLMNOPQRSTUVWXYZ'' @
               ''0123456789'' @ ''-_'')"

definition safeId :: "string \<Rightarrow> string" where
  "safeId walletId = map (\<lambda>c. if safeChar c then c else CHR ''_'') walletId"

definition getKeyFilePath :: "KeyStoreState \<Rightarrow> string \<Rightarrow> string" where
  "getKeyFilePath s walletId = storePath s @ ''/'' @ safeId walletId @ ''.encrypted.json''"

text \<open>
  \<open>storeKey\<close>. The random salt and IV (\<open>crypto.randomBytes\<close>) and the clock
  (\<open>Date.now()\<close>) are inputs. \<open>secretKey\<close> is the address of the caller's
  \<open>Uint8Array\<close>. The derived key and \<open>Buffer.from(secretKey)\<close>, a copy, are new buffers;
  the file is written without looking whether one exists; then the two new buffers are
  filled with zeros.
\<close>

definition storeKey ::
  "crypto \<Rightarrow> byte list \<Rightarrow> byte list \<Rightarrow> int \<Rightarrow> KeyStoreState \<Rightarrow>
   string \<Rightarrow> addr \<Rightarrow> string \<Rightarrow> string \<Rightarrow> metadataMap option \<Rightarrow> KeyStoreState" where
  "storeKey c saltBytes ivBytes now s walletId secretKey pub password meta =
     (let (m1, derivedKey) = alloc (mem s) (pbkdf2 c password saltBytes);
          (m2, secretKeyBuffer) = alloc m1 (readBuf m1 secretKey);
          (encrypted, tag) = gcmEncrypt c (readBuf m2 derivedKey) ivBytes (readBuf m2 secretKeyBuffer);
          encryptedData = \<lparr> version = VERSION, algorithm = ALGORITHM,
            iv = toHex ivBytes, salt = toHex saltBytes, authTag = toHex tag,
            encryptedKey = toHex encrypted, publicKey = pub, createdAt = now,
            metadata = meta \<rparr>;
          filePath = getKeyFilePath s walletId
      in s\<lparr> files := (files s)(filePath \<mapsto> encryptedData),
             mem := fill0 (fill0 m2 secretKeyBuffer) derivedKey \<rparr>)"

text \<open>
  The handle \<open>retrieveKey\<close> returns: \<open>secretKey\<close> is a \<open>Uint8Array\<close> copied from the
  \<open>decrypted\<close> buffer; the \<open>cleanup\<close> closure holds both and zeroes both.
\<close>

record KeyHandle =
  secretKey :: addr
  decrypted :: addr
  handlePublicKey :: string

definition cleanup :: "KeyHandle \<Rightarrow> KeyStoreState \<Rightarrow> KeyStoreState" where
  "cleanup h s = s\<lparr> mem := fill0 (fill0 (mem s) (decrypted h)) (secretKey h) \<rparr>"

text \<open>
  \<open>retrieveKey\<close>: not found, wrong version, and then, with the derived key zeroed on both
  exits (\<open>finally\<close>), either a failed decryption or the handle.
\<close>

definition retrieveKey ::
  "crypto \<Rightarrow> KeyStoreState \<Rightarrow> string \<Rightarrow> string \<Rightarrow> (storeError + KeyHandle) \<times> KeyStoreState" where
  "retrieveKey c s walletId password =
     (let s0 = s\<lparr> retrieveLog := retrieveLog s @ [walletId] \<rparr> in
      case files s0 (getKeyFilePath s0 walletId) of
        None \<Rightarrow> (Inl (WalletNotFound walletId), s0)
      | Some encryptedData \<Rightarrow>
          if version encryptedData \<noteq> VERSION
          then (Inl (UnsupportedVersion (version encryptedData)), s0)
          else
            (let saltBytes = fromHex (salt encryptedData);
                 ivBytes = fromHex (iv encryptedData);
                 tag = fromHex (authTag encryptedData);
                 encrypted = fromHex (encryptedKey encryptedData);
                 (m1, derivedKey) = alloc (mem s0) (pbkdf2 c password saltBytes)
             in case gcmDecrypt c (readBuf m1 derivedKey) ivBytes tag encrypted of
                  None \<Rightarrow> (Inl InvalidPasswordOrCorrupted, s0\<lparr> mem := fill0 m1 derivedKey \<rparr>)
                | Some plain \<Rightarrow>
                    (let (m2, dec) = alloc m1 plain;
                         (m3, sk) = alloc m2 (readBuf m2 dec)
                     in (Inr \<lparr> secretKey = sk, decrypted = dec,
                               handlePublicKey = publicKey encryptedData \<rparr>,
                         s0\<lparr> mem := fill0 m3 derivedKey \<rparr>))))"

definition hasWallet :: "KeyStoreState \<Rightarrow> string \<Rightarrow> bool" where
  "hasWallet s walletId \<longleftrightarrow> files s (getKeyFilePath s walletId) \<noteq> None"

definition getWalletInfo ::
  "KeyStoreState \<Rightarrow> string \<Rightarrow> (string \<times> int \<times> metadataMap option) option" where
  "getWalletInfo s walletId =
     (case files s (getKeyFilePath s walletId) of
        None \<Rightarrow> None
      | Some d \<Rightarrow> Some (publicKey d, createdAt d, metadata d))"

text \<open>\<open>deleteWallet\<close> overwrites the file with random bytes and unlinks it at once.\<close>

definition deleteWallet :: "KeyStoreState \<Rightarrow> string \<Rightarrow> bool \<times> KeyStoreState" where
  "deleteWallet s walletId =
     (case files s (getKeyFilePath s walletId) of
        None \<Rightarrow> (False, s)
      | Some d \<Rightarrow> (True, s\<lparr> files := (files s)(getKeyFilePath s walletId := None) \<rparr>))"

text \<open>
  \<open>changePassword\<close> retrieves under the old password and calls \<open>storeKey\<close> for the
  same wallet id, which replaces the file; the handle is cleaned up afterwards.
\<close>

definition changePassword ::
  "crypto \<Rightarrow> byte list \<Rightarrow> byte list \<Rightarrow> int \<Rightarrow> KeyStoreState \<Rightarrow>
   string \<Rightarrow> string \<Rightarrow> string \<Rightarrow> storeError option \<times> KeyStoreState" where
  "changePassword c saltBytes ivBytes now s walletId oldPassword newPassword =
     (case retrieveKey c s walletId oldPassword of
        (Inl e, s1) \<Rightarrow> (Some e, s1)
      | (Inr h, s1) \<Rightarrow>
          (let meta = (case getWalletInfo s1 walletId of None \<Rightarrow> None | Some (p, t, md) \<Rightarrow> md);
               s2 = storeKey c saltBytes ivBytes now s1 walletId (secretKey h)
                      (handlePublicKey h) newPassword meta
           in (None, cleanup h s2)))"

section \<open>ExecutionEngine\<close>

datatype ActionType =
    transfer_sol
  | transfer_token
  | create_token_account
  | close_account
  | custom

datatype PermissionLevel = READ_ONLY | LIMITED | STANDARD | ELEVATED | ADMIN

text \<open>
  A JavaScript \<open>number\<close> that holds an amount or a limit is a \<open>real\<close>; \<open>NaN\<close> and
  the infinities are left out. A comparison is the program's comparison. A sum or a
  difference stands for the program's double-precision one, which rounds: the theorems
  take each sum and each difference as the program writes it, and none of them rests on
  a law that turns the one into the other (on doubles \<open>amount \<le> cap - used\<close> and
  \<open>used + amount \<le> cap\<close> can differ). \<open>Date.now()\<close> is an \<open>int\<close> of
  milliseconds. An optional field is an \<open>option\<close>.
\<close>

record AgentPermissions =
  level :: PermissionLevel
  maxTransactionAmount :: real
  maxDailyVolume :: real
  allowedActions :: "ActionType list"
  allowedDestinations :: "string list option"
  rateLimit :: real
  requiresApproval :: "real option"

record ActionParams =
  action :: ActionType
  destination :: "string option"
  amount :: "real option"
  mint :: "string option"
  tokenAccount :: "string option"
  decimals :: "real option"
  instructions :: "string list option"
  memo :: "string option"
  priority :: "string option"

text \<open>
  JavaScript truthiness, as the conditions of the code use it: an absent or empty string
  is falsy, an absent or zero number is falsy, and \<open>params.amount || 0\<close> is the amount,
  or 0 when it is absent.
\<close>

definition truthyString :: "string option \<Rightarrow> bool" where
  "truthyString x \<longleftrightarrow> (case x of None \<Rightarrow> False | Some v \<Rightarrow> v \<noteq> [])"

definition truthyNumber :: "real option \<Rightarrow> bool" where
  "truthyNumber x \<longleftrightarrow> (case x of None \<Rightarrow> False | Some v \<Rightarrow> v \<noteq> 0)"

definition amountOrZero :: "real option \<Rightarrow> real" where
  "amountOrZero x = (case x of None \<Rightarrow> 0 | Some v \<Rightarrow> v)"

text \<open>
  The error strings of the code, one constructor per message, with the values the
  message interpolates. \<open>LedgerError\<close> carries the message of an error thrown by
  \<open>@solana/web3.js\<close>, \<open>@solana/spl-token\<close> or the network.
\<close>

datatype failure =
    AgentNotRegistered
  | ReadOnlyAgent
  | ActionNotAllowed ActionType
  | AmountExceedsMax real real
  | DestinationNotInWhitelist
  | RateLimitExceeded
  | DailyVolumeLimitExceeded real real
  | AmountExceedsRemaining real real
  | DestinationNotWhitelisted
  | KeyStoreError storeError
  | MissingParameters ActionType
  | UnknownAction ActionType
  | LedgerError string
  | UndefinedPermissions

text \<open>The reasons \<open>validatePermissions\<close> gives.\<close>

fun isPermissionDenied :: "failure \<Rightarrow> bool" where
  "isPermissionDenied AgentNotRegistered = True"
| "isPermissionDenied ReadOnlyAgent = True"
| "isPermissionDenied (ActionNotAllowed a) = True"
| "isPermissionDenied (AmountExceedsMax a m) = True"
| "isPermissionDenied DestinationNotInWhitelist = True"
| "isPermissionDenied f = False"

record PermissionCheck =
  allowed :: bool
  reason :: "failure option"

definition permitted :: PermissionCheck where
  "permitted = \<lparr> allowed = True, reason = None \<rparr>"

definition denied :: "failure \<Rightarrow> PermissionCheck" where
  "denied f = \<lparr> allowed = False, reason = Some f \<rparr>"

subsection \<open>RateLimiter\<close>

type_synonym RateLimiter = "string \<rightharpoonup> int list"

definition RateLimiter_canExecute :: "RateLimiter \<Rightarrow> int \<Rightarrow> string \<Rightarrow> real \<Rightarrow> bool" where
  "RateLimiter_canExecute rl now agentId limit =
     (let windowMs = 60000;
          txTimes = (case rl agentId of None \<Rightarrow> [] | Some ts \<Rightarrow> ts);
          recentTxs = filter (\<lambda>t. now - t < windowMs) txTimes
      in real (length recentTxs) < limit)"

definition recordTransaction :: "RateLimiter \<Rightarrow> int \<Rightarrow> string \<Rightarrow> RateLimiter" where
  "recordTransaction rl now agentId =
     (let txTimes = (case rl agentId of None \<Rightarrow> [] | Some ts \<Rightarrow> ts) @ [now];
          kept = (if length txTimes > 100 then tl txTimes else txTimes)
      in rl(agentId \<mapsto> kept))"

subsection \<open>VolumeTracker\<close>

text \<open>
  A record of the tracker is \<open>{amount, date}\<close>, here the pair \<open>(amount, date)\<close>. The
  date is \<open>new Date().toISOString().split('T')[0]\<close>, the UTC calendar date
  \<open>YYYY-MM-DD\<close> of the clock; two such strings are equal exactly when the two instants
  fall on the same UTC day, so the date is modelled by the number of that day.
\<close>

type_synonym VolumeTracker = "string \<rightharpoonup> (real \<times> int)"

definition utcDate :: "int \<Rightarrow> int" where
  "utcDate now = now div 86400000"

definition getVolume :: "VolumeTracker \<Rightarrow> int \<Rightarrow> string \<Rightarrow> real" where
  "getVolume vt now agentId =
     (let today = utcDate now in
      case vt agentId of
        None \<Rightarrow> 0
      | Some (amt, date) \<Rightarrow> if date \<noteq> today then 0 else amt)"

definition addVolume :: "VolumeTracker \<Rightarrow> int \<Rightarrow> string \<Rightarrow> real \<Rightarrow> VolumeTracker" where
  "addVolume vt now agentId amt =
     (let today = utcDate now in
      case vt agentId of
        None \<Rightarrow> vt(agentId \<mapsto> (amt, today))
      | Some (acc, date) \<Rightarrow>
          if date \<noteq> today then vt(agentId \<mapsto> (amt, today))
          else vt(agentId \<mapsto> (acc + amt, date)))"

subsection \<open>The engine\<close>

text \<open>
  \<open>createResult\<close> sets these fields of an \<open>ExecutionResult\<close>; \<open>resultAction\<close> and
  \<open>resultAmount\<close> are its \<open>action\<close> and \<open>amount\<close>.
\<close>

record ExecutionResult =
  success :: bool
  signature :: "string option"
  error :: "failure option"
  resultAction :: ActionType
  resultAmount :: "real option"
  timestamp :: int

record EngineState =
  permissions :: "string \<rightharpoonup> AgentPermissions"
  rateLimiter :: RateLimiter
  volumeTracker :: VolumeTracker
  executionLog :: "ExecutionResult list"

definition newEngine :: EngineState where
  "newEngine = \<lparr> permissions = Map.empty, rateLimiter = Map.empty,
                 volumeTracker = Map.empty, executionLog = [] \<rparr>"

definition registerAgent :: "EngineState \<Rightarrow> string \<Rightarrow> AgentPermissions \<Rightarrow> EngineState" where
  "registerAgent e agentId perms = e\<lparr> permissions := (permissions e)(agentId \<mapsto> perms) \<rparr>"

definition createResult ::
  "bool \<Rightarrow> ActionType \<Rightarrow> failure option \<Rightarrow> string option \<Rightarrow> real option \<Rightarrow> int \<Rightarrow> ExecutionResult" where
  "createResult ok act err sig amt now =
     \<lparr> success = ok, signature = sig, error = err, resultAction = act,
       resultAmount = amt, timestamp = now \<rparr>"

text \<open>
  \<open>validatePermissions\<close>. The last block of the source, on \<open>requiresApproval\<close>, only
  writes to the console and then allows the request; it has no branch here.
\<close>

definition validatePermissions :: "EngineState \<Rightarrow> string \<Rightarrow> ActionParams \<Rightarrow> PermissionCheck" where
  "validatePermissions e agentId params =
     (case permissions e agentId of
        None \<Rightarrow> denied AgentNotRegistered
      | Some perms \<Rightarrow>
          if level perms = READ_ONLY then denied ReadOnlyAgent
          else if action params \<notin> set (allowedActions perms)
          then denied (ActionNotAllowed (action params))
          else
            (let amt = amountOrZero (amount params) in
             if amt > maxTransactionAmount perms
             then denied (AmountExceedsMax amt (maxTransactionAmount perms))
             else
               (case allowedDestinations perms of
                  None \<Rightarrow> permitted
                | Some dests \<Rightarrow>
                    if truthyString (destination params) \<and> the (destination params) \<notin> set dests
                    then denied DestinationNotInWhitelist
                    else permitted)))"

text \<open>
  The ledger client and the Solana libraries are outside the repository. One call of
  \<open>execute\<close> sees one outcome of each of their operations: \<open>Inl\<close> the message of the
  error it throws, \<open>Inr\<close> what it returns. \<open>makeInstructions\<close> stands for the
  constructors \<open>buildTransaction\<close> calls once its own checks have passed
  (\<open>new PublicKey\<close>, \<open>SystemProgram.transfer\<close>, \<open>createTransferInstruction\<close>,
  \<open>getAssociatedTokenAddress\<close>, \<open>transaction.add\<close>); \<open>signAndSerialize\<close> for
  \<open>transaction.sign\<close> and \<open>transaction.serialize\<close>.
\<close>

record Ledger =
  keypairFromSecretKey :: "byte list \<Rightarrow> string + string"
  makeInstructions :: "string \<Rightarrow> ActionParams \<Rightarrow> string + string"
  getLatestBlockhash :: "string + (string \<times> int)"
  signAndSerialize :: "string \<Rightarrow> string \<Rightarrow> byte list \<Rightarrow> string + string"
  sendRawTransaction :: "string \<Rightarrow> string + string"
  confirmTransaction :: "string \<Rightarrow> string \<Rightarrow> int \<Rightarrow> string + unit"

definition buildTransaction :: "Ledger \<Rightarrow> string \<Rightarrow> ActionParams \<Rightarrow> failure + string" where
  "buildTransaction L fromPubkey params =
     (let built = (case makeInstructions L fromPubkey params of
                     Inl msg \<Rightarrow> Inl (LedgerError msg)
                   | Inr tx \<Rightarrow> Inr tx)
      in case action params of
        transfer_sol \<Rightarrow>
          if \<not> truthyString (destination params) \<or> amount params = None
          then Inl (MissingParameters transfer_sol) else built
      | transfer_token \<Rightarrow>
          if \<not> truthyString (tokenAccount params) \<or> \<not> truthyString (destination params) \<or>
             \<not> truthyNumber (amount params) \<or> \<not> truthyNumber (decimals params)
          then Inl (MissingParameters transfer_token) else built
      | create_token_account \<Rightarrow>
          if \<not> truthyString (mint params)
          then Inl (MissingParameters create_token_account) else built
      | custom \<Rightarrow>
          if instructions params = None \<or> instructions params = Some []
          then Inl (MissingParameters custom) else built
      | close_account \<Rightarrow> Inl (UnknownAction close_account))"

text \<open>
  Steps 5 to 10 of \<open>execute\<close>, which run inside its inner \<open>try\<close> with the decrypted
  key: keypair, build, blockhash, sign, send, confirm. The value is the transaction
  signature once \<open>confirmTransaction\<close> has returned, or the first error thrown.
\<close>

definition signAndSend :: "Ledger \<Rightarrow> byte list \<Rightarrow> ActionParams \<Rightarrow> failure + string" where
  "signAndSend L secret params =
     (case keypairFromSecretKey L secret of
        Inl msg \<Rightarrow> Inl (LedgerError msg)
      | Inr pubkey \<Rightarrow>
     (case buildTransaction L pubkey params of
        Inl f \<Rightarrow> Inl f
      | Inr tx \<Rightarrow>
     (case getLatestBlockhash L of
        Inl msg \<Rightarrow> Inl (LedgerError msg)
      | Inr (blockhash, lastValidBlockHeight) \<Rightarrow>
     (case signAndSerialize L tx blockhash secret of
        Inl msg \<Rightarrow> Inl (LedgerError msg)
      | Inr raw \<Rightarrow>
     (case sendRawTransaction L raw of
        Inl msg \<Rightarrow> Inl (LedgerError msg)
      | Inr sig \<Rightarrow>
     (case confirmTransaction L sig blockhash lastValidBlockHeight of
        Inl msg \<Rightarrow> Inl (LedgerError msg)
      | Inr u \<Rightarrow> Inr sig))))))"

text \<open>The \<open>catch\<close> of \<open>execute\<close>: a failed result, pushed on the execution log.\<close>

definition caught ::
  "ActionParams \<Rightarrow> failure \<Rightarrow> int \<Rightarrow> EngineState \<Rightarrow> KeyStoreState \<Rightarrow>
   ExecutionResult \<times> EngineState \<times> KeyStoreState" where
  "caught params f now e k =
     (let result = createResult False (action params) (Some f) None None now
      in (result, e\<lparr> executionLog := executionLog e @ [result] \<rparr>, k))"

text \<open>
  \<open>execute\<close>. \<open>t0\<close> is the clock during the policy checks, which run without
  interruption; \<open>t1\<close> is the clock when the call ends, after the awaited steps. A
  rejection returns without touching the log; an error thrown by \<open>retrieveKey\<close> or by
  a later step is caught; \<open>cleanup\<close> runs on both exits of the inner \<open>try\<close>.
  \<open>this.permissions.get(agentId)!\<close> cannot be undefined after a passed validation;
  the model gives that branch the caught \<open>TypeError\<close>.
\<close>

definition execute ::
  "crypto \<Rightarrow> Ledger \<Rightarrow> int \<Rightarrow> int \<Rightarrow> EngineState \<Rightarrow> KeyStoreState \<Rightarrow>
   string \<Rightarrow> string \<Rightarrow> ActionParams \<Rightarrow> ExecutionResult \<times> EngineState \<times> KeyStoreState" where
  "execute c L t0 t1 e k agentId walletPassword params =
     (let permCheck = validatePermissions e agentId params in
      if \<not> allowed permCheck
      then (createResult False (action params) (reason permCheck) None None t0, e, k)
      else
        (case permissions e agentId of
           None \<Rightarrow> caught params UndefinedPermissions t1 e k
         | Some perms \<Rightarrow>
             if \<not> RateLimiter_canExecute (rateLimiter e) t0 agentId (rateLimit perms)
             then (createResult False (action params) (Some RateLimitExceeded) None None t0, e, k)
             else
               (let currentVolume = getVolume (volumeTracker e) t0 agentId;
                    txAmount = amountOrZero (amount params)
                in if currentVolume + txAmount > maxDailyVolume perms
                   then (createResult False (action params)
                           (Some (DailyVolumeLimitExceeded currentVolume (maxDailyVolume perms)))
                           None None t0, e, k)
                   else
                     (case retrieveKey c k agentId walletPassword of
                        (Inl err, k1) \<Rightarrow> caught params (KeyStoreError err) t1 e k1
                      | (Inr h, k1) \<Rightarrow>
                          (case signAndSend L (readBuf (mem k1) (secretKey h)) params of
                             Inl f \<Rightarrow> caught params f t1 e (cleanup h k1)
                           | Inr sig \<Rightarrow>
                               (let e1 = e\<lparr> rateLimiter := recordTransaction (rateLimiter e) t1 agentId,
                                            volumeTracker := addVolume (volumeTracker e) t1 agentId txAmount \<rparr>;
                                    result = createResult True (action params) None (Some sig)
                                               (Some txAmount) t1
                                in (result, e1\<lparr> executionLog := executionLog e1 @ [result] \<rparr>,
                                    cleanup h k1)))))))"


section \<open>SecureAgenticWallet\<close>

record SecureWalletConfig =
  agentId :: string
  name :: string
  configPermissions :: AgentPermissions

text \<open>
  The wallet object: its own engine, its configuration (\<open>configPermissions\<close> is the
  \<open>permissions\<close> of the configuration) and the password. Its key store is a
  \<open>SecureKeyStore\<close> over the directory it was given; the store's state is passed
  alongside.
\<close>

record SecureAgenticWallet =
  executionEngine :: EngineState
  config :: SecureWalletConfig
  password :: string

datatype walletError = WalletAlreadyExists string

text \<open>
  \<open>create\<close>: the generated keypair (\<open>Keypair.generate()\<close>) is an input; the key it
  holds is a new buffer. The \<open>secretKey\<close> getter of a \<open>Keypair\<close> of
  \<open>@solana/web3.js\<close> returns \<open>new Uint8Array\<close> of the key held inside, a copy, at
  every read: the array handed to \<open>storeKey\<close> is one copy, and the array that
  \<open>keypair.secretKey.fill(0)\<close> fills with zeros afterwards is another.
\<close>

definition create ::
  "crypto \<Rightarrow> byte list \<Rightarrow> string \<Rightarrow> byte list \<Rightarrow> byte list \<Rightarrow> int \<Rightarrow> KeyStoreState \<Rightarrow>
   SecureWalletConfig \<Rightarrow> string \<Rightarrow> (walletError + SecureAgenticWallet) \<times> KeyStoreState" where
  "create c keypairSecret keypairPublic saltBytes ivBytes now k cfg pw =
     (if hasWallet k (agentId cfg) then (Inl (WalletAlreadyExists (agentId cfg)), k)
      else
        (let (m1, keypair) = alloc (mem k) keypairSecret;
             (m2, secretKeyRead1) = alloc m1 (readBuf m1 keypair);
             k1 = storeKey c saltBytes ivBytes now (k\<lparr> mem := m2 \<rparr>) (agentId cfg)
                    secretKeyRead1 keypairPublic pw
                    (Some [(''name'', JString (name cfg)), (''createdAt'', JNumber now)]);
             engine = registerAgent newEngine (agentId cfg) (configPermissions cfg);
             (m3, secretKeyRead2) = alloc (mem k1) (readBuf (mem k1) keypair);
             k2 = k1\<lparr> mem := fill0 m3 secretKeyRead2 \<rparr>
         in (Inr \<lparr> executionEngine = engine, config = cfg, password = pw \<rparr>, k2)))"

definition wallet_execute ::
  "crypto \<Rightarrow> Ledger \<Rightarrow> int \<Rightarrow> int \<Rightarrow> SecureAgenticWallet \<Rightarrow> KeyStoreState \<Rightarrow> ActionParams \<Rightarrow>
   ExecutionResult \<times> SecureAgenticWallet \<times> KeyStoreState" where
  "wallet_execute c L t0 t1 w k params =
     (case execute c L t0 t1 (executionEngine w) k (agentId (config w)) (password w) params of
        (r, e, k') \<Rightarrow> (r, w\<lparr> executionEngine := e \<rparr>, k'))"


section \<open>Concrete values\<close>

text \<open>
  A stand-in for the cipher, used only to run the definitions on concrete inputs: the
  key is the password bytes followed by the salt, the ciphertext is the plaintext
  reversed, and the tag is the key followed by the IV.
\<close>

definition toyCrypto :: crypto where
  "toyCrypto =
     \<lparr> pbkdf2 = (\<lambda>pw saltBytes. map of_char pw @ saltBytes),
       gcmEncrypt = (\<lambda>k v p. (rev p, k @ v)),
       gcmDecrypt = (\<lambda>k v t ct. if t = k @ v then Some (rev ct) else None) \<rparr>"

text \<open>A store directory with no key file and one caller buffer, a three-byte secret.\<close>

definition store0 :: KeyStoreState where
  "store0 = \<lparr> storePath = ''keys'', files = Map.empty, mem = [[1, 2, 3]], retrieveLog = [] \<rparr>"

text \<open>The same directory after a first \<open>storeKey\<close> for \<open>agent-1\<close>.\<close>

definition store1 :: KeyStoreState where
  "store1 = storeKey toyCrypto [9] [7] 1000 store0 ''agent-1'' 0 ''PUB'' ''pw'' None"

definition perms1 :: AgentPermissions where
  "perms1 = \<lparr> level = STANDARD, maxTransactionAmount = 5, maxDailyVolume = 10,
              allowedActions = [transfer_sol, transfer_token],
              allowedDestinations = Some [''Alice''], rateLimit = 2,
              requiresApproval = None \<rparr>"

definition config1 :: SecureWalletConfig where
  "config1 = \<lparr> agentId = ''agent-1'', name = ''first'', configPermissions = perms1 \<rparr>"

text \<open>
  An engine with \<open>agent-1\<close> registered, and the same engine with 8 SOL of volume
  recorded on UTC day 0.
\<close>

definition engine1 :: EngineState where
  "engine1 = registerAgent newEngine ''agent-1'' perms1"

definition engine2 :: EngineState where
  "engine2 = engine1\<lparr> volumeTracker := [''agent-1'' \<mapsto> (8, 0)] \<rparr>"

text \<open>The parameters \<open>transferSOL(destination, amount)\<close> passes to \<open>execute\<close>.\<close>

definition transferSOL :: "string \<Rightarrow> real \<Rightarrow> ActionParams" where
  "transferSOL dest amt =
     \<lparr> action = transfer_sol, destination = Some dest, amount = Some amt, mint = None,
       tokenAccount = None, decimals = None, instructions = None, memo = None,
       priority = None \<rparr>"

text \<open>Parameters with an allowed action and no amount.\<close>

definition noAmount :: ActionParams where
  "noAmount =
     \<lparr> action = transfer_sol, destination = None, amount = None, mint = None,
       tokenAccount = None, decimals = None, instructions = None, memo = None,
       priority = None \<rparr>"

text \<open>A ledger on which every step succeeds, and one whose submission throws.\<close>

definition ledgerOk :: Ledger where
  "ledgerOk =
     \<lparr> keypairFromSecretKey = (\<lambda>secret. Inr ''PUB''),
       makeInstructions = (\<lambda>pub params. Inr ''tx''),
       getLatestBlockhash = Inr (''hash'', 7),
       signAndSerialize = (\<lambda>tx blockhash secret. Inr ''raw''),
       sendRawTransaction = (\<lambda>raw. Inr ''sig''),
       confirmTransaction = (\<lambda>sig blockhash height. Inr ()) \<rparr>"

definition ledgerSendFails :: Ledger where
  "ledgerSendFails = ledgerOk\<lparr> sendRawTransaction := (\<lambda>raw. Inl ''blockhash not found'') \<rparr>"

text \<open>Two calls on that engine and store: one whose submission throws, one that is confirmed.\<close>

definition runSendFails :: "ExecutionResult \<times> EngineState \<times> KeyStoreState" where
  "runSendFails =
     execute toyCrypto ledgerSendFails 1000 2000 engine1 store1 ''agent-1'' ''pw''
       (transferSOL ''Alice'' 1)"

definition runOk :: "ExecutionResult \<times> EngineState \<times> KeyStoreState" where
  "runOk =
     execute toyCrypto ledgerOk 1000 2000 engine1 store1 ''agent-1'' ''pw''
       (transferSOL ''Alice'' 1)"

text \<open>
  A profile whose two amount limits are 0, and the wallet \<open>create\<close> returns for a
  configuration: a new engine with the configuration's permissions registered.
\<close>

definition permsZero :: AgentPermissions where
  "permsZero = \<lparr> level = STANDARD, maxTransactionAmount = 0, maxDailyVolume = 0,
                 allowedActions = [transfer_sol], allowedDestinations = None, rateLimit = 1,
                 requiresApproval = None \<rparr>"


section \<open>Memory\<close>

lemma readBuf_append:
  "readBuf (m @ xs) a = (if a < length m then readBuf m a else readBuf xs (a - length m))"
  by (auto simp: readBuf_def nth_append)

lemma readBuf_Cons [simp]:
  "readBuf (x # xs) n = (if n = 0 then x else readBuf xs (n - 1))"
  by (cases n) (simp_all add: readBuf_def)

lemma readBuf_Nil [simp]: "readBuf [] a = []"
  by (simp add: readBuf_def)

lemma length_fill0 [simp]: "length (fill0 m a) = length m"
  by (simp add: fill0_def)

lemma readBuf_fill0:
  "readBuf (fill0 m a) b = (if a = b then replicate (length (readBuf m a)) 0 else readBuf m b)"
  by (simp add: fill0_def readBuf_def)

lemma zeroed_replicate [simp]: "zeroed (replicate n 0)"
  by (simp add: zeroed_def)

section \<open>Hex round trip\<close>

lemma hexVal_hexDigit: "k < 16 \<Longrightarrow> hexVal (hexDigit k) = Some k"
proof -
  assume "k < 16"
  then have "k = 0 \<or> k = 1 \<or> k = 2 \<or> k = 3 \<or> k = 4 \<or> k = 5 \<or> k = 6 \<or> k = 7 \<or>
      k = 8 \<or> k = 9 \<or> k = 10 \<or> k = 11 \<or> k = 12 \<or> k = 13 \<or> k = 14 \<or> k = 15"
    by arith
  then show ?thesis
    by (elim disjE) (simp_all add: hexVal_def hexDigit_def)
qed

lemma unat_byte_div: "unat (b :: byte) div 16 < 16"
proof -
  have "unat b < 256"
    using unsigned_less [of b] by simp
  then show ?thesis by simp
qed

lemma fromHex_toHex: "fromHex (toHex bs) = bs"
  by (induction bs) (simp_all add: toHex_def hexVal_hexDigit unat_byte_div)

section \<open>Key store: files and round trip\<close>

lemma gcmInverse_toyCrypto: "gcmInverse toyCrypto"
  by (simp add: gcmInverse_def toyCrypto_def)

lemma storeKey_files:
  "sk < length (mem s) \<Longrightarrow>
   files (storeKey c saltBytes ivBytes now s walletId sk pub pw meta) =
     (files s)(getKeyFilePath s walletId \<mapsto>
       \<lparr> version = VERSION, algorithm = ALGORITHM, iv = toHex ivBytes, salt = toHex saltBytes,
         authTag = toHex (snd (gcmEncrypt c (pbkdf2 c pw saltBytes) ivBytes (readBuf (mem s) sk))),
         encryptedKey = toHex (fst (gcmEncrypt c (pbkdf2 c pw saltBytes) ivBytes (readBuf (mem s) sk))),
         publicKey = pub, createdAt = now, metadata = meta \<rparr>)"
  by (simp add: storeKey_def alloc_def Let_def split_def readBuf_append)

lemma storeKey_mem:
  "sk < length (mem s) \<Longrightarrow>
   mem (storeKey c saltBytes ivBytes now s walletId sk pub pw meta) =
     fill0 (fill0 (mem s @ [pbkdf2 c pw saltBytes, readBuf (mem s) sk])
       (Suc (length (mem s)))) (length (mem s))"
  by (simp add: storeKey_def alloc_def Let_def split_def readBuf_append)

lemma storeKey_other [simp]:
  "storePath (storeKey c saltBytes ivBytes now s walletId sk pub pw meta) = storePath s"
  "retrieveLog (storeKey c saltBytes ivBytes now s walletId sk pub pw meta) = retrieveLog s"
  by (simp_all add: storeKey_def alloc_def Let_def split_def)

lemma getKeyFilePath_storeKey [simp]:
  "getKeyFilePath (storeKey c saltBytes ivBytes now s walletId sk pub pw meta) w = getKeyFilePath s w"
  by (simp add: getKeyFilePath_def)

lemma retrieveKey_hit:
  assumes "files s (getKeyFilePath s walletId) = Some d"
    and "version d = VERSION"
    and "gcmDecrypt c (pbkdf2 c pw (fromHex (salt d))) (fromHex (iv d)) (fromHex (authTag d))
           (fromHex (encryptedKey d)) = Some plain"
  shows "retrieveKey c s walletId pw =
     (Inr \<lparr> secretKey = Suc (Suc (length (mem s))), decrypted = Suc (length (mem s)),
            handlePublicKey = publicKey d \<rparr>,
      s\<lparr> retrieveLog := retrieveLog s @ [walletId],
         mem := fill0 (mem s @ [pbkdf2 c pw (fromHex (salt d)), plain, plain]) (length (mem s)) \<rparr>)"
  using assms
  by (simp add: retrieveKey_def alloc_def Let_def split_def getKeyFilePath_def readBuf_append)

lemma retrieveKey_after_storeKey:
  assumes "gcmInverse c" and "sk < length (mem s)" and "safeId b = safeId a"
  shows "\<exists>h s'. retrieveKey c (storeKey c saltBytes ivBytes now s a sk pub pw meta) b pw
                   = (Inr h, s')
               \<and> readBuf (mem s') (secretKey h) = readBuf (mem s) sk
               \<and> handlePublicKey h = pub"
proof -
  let ?s1 = "storeKey c saltBytes ivBytes now s a sk pub pw meta"
  let ?k = "pbkdf2 c pw saltBytes"
  let ?p = "readBuf (mem s) sk"
  let ?d = "\<lparr> version = VERSION, algorithm = ALGORITHM, iv = toHex ivBytes, salt = toHex saltBytes,
         authTag = toHex (snd (gcmEncrypt c ?k ivBytes ?p)),
         encryptedKey = toHex (fst (gcmEncrypt c ?k ivBytes ?p)),
         publicKey = pub, createdAt = now, metadata = meta \<rparr>"
  have p: "getKeyFilePath s b = getKeyFilePath s a"
    using assms(3) by (simp add: getKeyFilePath_def)
  have f: "files ?s1 (getKeyFilePath ?s1 b) = Some ?d"
    using assms(2) by (simp add: storeKey_files p)
  have v: "version ?d = VERSION" by simp
  have g: "gcmDecrypt c (pbkdf2 c pw (fromHex (salt ?d))) (fromHex (iv ?d)) (fromHex (authTag ?d))
           (fromHex (encryptedKey ?d)) = Some ?p"
    using assms(1) by (simp add: fromHex_toHex gcmInverse_def)
  show ?thesis
    unfolding retrieveKey_hit [OF f v g]
    by (simp add: readBuf_fill0 readBuf_append)
qed

text \<open>
  C8. Round trip: for a wallet id with no key file yet, \<open>storeKey\<close> of the caller's
  secret key followed by \<open>retrieveKey\<close> with the same id and password succeeds, and
  the handle's secret key holds the same bytes as the caller's buffer held (before
  \<open>cleanup\<close>), with the stored public key.
\<close>

theorem storeKey_retrieveKey_roundtrip:
  assumes "gcmInverse c" and "sk < length (mem s)" and "\<not> hasWallet s walletId"
  shows "\<exists>h s'. retrieveKey c (storeKey c saltBytes ivBytes now s walletId sk pub pw meta) walletId pw
                   = (Inr h, s')
               \<and> readBuf (mem s') (secretKey h) = readBuf (mem s) sk
               \<and> handlePublicKey h = pub"
  using retrieveKey_after_storeKey [OF assms(1) assms(2) refl] .

theorem storeKey_retrieveKey_roundtrip_witness:
  "gcmInverse toyCrypto \<and> 0 < length (mem store0) \<and> \<not> hasWallet store0 ''agent-1''
   \<and> (\<exists>h s'. retrieveKey toyCrypto
                 (storeKey toyCrypto [9] [7] 1000 store0 ''agent-1'' 0 ''PUB'' ''pw'' None)
                 ''agent-1'' ''pw'' = (Inr h, s')
             \<and> readBuf (mem s') (secretKey h) = [1, 2, 3]
             \<and> handlePublicKey h = ''PUB'')"
proof -
  have a: "0 < length (mem store0)" by (simp add: store0_def)
  have b: "\<not> hasWallet store0 ''agent-1''" by (simp add: hasWallet_def store0_def)
  have r: "readBuf (mem store0) 0 = [1, 2, 3]" by (simp add: store0_def)
  show ?thesis
    using storeKey_retrieveKey_roundtrip [OF gcmInverse_toyCrypto a b,
        of "[9]" "[7]" 1000 "''PUB''" "''pw''" None]
      gcmInverse_toyCrypto a b r
    by simp
qed

section \<open>Key store: existing wallet ids\<close>

lemma storeKey_publicKey:
  "map_option publicKey
     (files (storeKey c saltBytes ivBytes now s walletId sk pub pw meta) (getKeyFilePath s walletId))
   = Some pub"
  by (simp add: storeKey_def alloc_def Let_def split_def)

lemma hasWallet_storeKey:
  "safeId b = safeId a \<Longrightarrow> hasWallet (storeKey c saltBytes ivBytes now s a sk pub pw meta) b"
  by (simp add: hasWallet_def getKeyFilePath_def storeKey_def alloc_def Let_def split_def)

lemma create_existing:
  "hasWallet k (agentId cfg) \<Longrightarrow>
   create c keypairSecret keypairPublic saltBytes ivBytes now k cfg pw
     = (Inl (WalletAlreadyExists (agentId cfg)), k)"
  by (simp add: create_def)

text \<open>
  \<open>changePassword\<close> depends on \<open>storeKey\<close> replacing the file: once the old password
  has opened the record, the file of the id holds a record made with the new salt.
\<close>

lemma changePassword_replaces:
  assumes "retrieveKey c s walletId oldPassword = (Inr h, s1)"
  shows "fst (changePassword c saltBytes ivBytes now s walletId oldPassword newPassword) = None
    \<and> map_option salt
        (files (snd (changePassword c saltBytes ivBytes now s walletId oldPassword newPassword))
           (getKeyFilePath s walletId))
       = Some (toHex saltBytes)"
proof -
  have p: "storePath s1 = storePath s"
    using assms by (auto simp: retrieveKey_def Let_def split_def split: option.splits if_splits)
  show ?thesis
    using assms p
    by (simp add: changePassword_def Let_def cleanup_def storeKey_def alloc_def split_def
        getKeyFilePath_def)
qed

lemma mem_store1: "mem store1 = [[1, 2, 3], [0, 0, 0], [0, 0, 0]]"
  by (simp add: store1_def store0_def storeKey_mem toyCrypto_def fill0_def)

lemma store1_publicKey:
  "map_option publicKey (files store1 (getKeyFilePath store1 ''agent-1'')) = Some ''PUB''"
  unfolding store1_def getKeyFilePath_storeKey by (rule storeKey_publicKey)

lemma hasWallet_store1: "hasWallet store1 ''agent-1''"
  unfolding store1_def by (rule hasWallet_storeKey) simp

text \<open>
  C6, as stated, fails: \<open>storeKey\<close> for a wallet id that already has a key file
  returns normally and the file then holds the new record (here the public key
  \<open>PUB2\<close> in place of \<open>PUB\<close>).
\<close>

theorem storeKey_existing_id_counterexample:
  "hasWallet store1 ''agent-1''
   \<and> map_option publicKey (files store1 (getKeyFilePath store1 ''agent-1'')) = Some ''PUB''
   \<and> map_option publicKey
        (files (storeKey toyCrypto [8] [6] 2000 store1 ''agent-1'' 0 ''PUB2'' ''pw2'' None)
           (getKeyFilePath store1 ''agent-1'')) = Some ''PUB2''"
  using hasWallet_store1 store1_publicKey
    storeKey_publicKey [of toyCrypto "[8]" "[6]" 2000 store1 "''agent-1''" 0 "''PUB2''" "''pw2''" None]
  by simp

text \<open>
  C6, amended: \<open>storeKey\<close> has no existence check; whether or not the id is present,
  it returns normally, and afterwards the file of the id holds the whole new record (new
  salt, IV, tag, ciphertext of the caller's key under the new password, public key,
  creation time and metadata) and every other file is as it was. The existence check is
  \<open>SecureAgenticWallet.create\<close>'s: for an id that is present it fails with "Wallet
  already exists" before \<open>storeKey\<close> is reached and leaves the store as it was.
\<close>

theorem storeKey_overwrites_create_guards:
  assumes "sk < length (mem s)"
  shows "files (storeKey c saltBytes ivBytes now s walletId sk pub pw meta)
      = (files s)(getKeyFilePath s walletId \<mapsto>
          \<lparr> version = VERSION, algorithm = ALGORITHM, iv = toHex ivBytes, salt = toHex saltBytes,
            authTag = toHex (snd (gcmEncrypt c (pbkdf2 c pw saltBytes) ivBytes (readBuf (mem s) sk))),
            encryptedKey = toHex (fst (gcmEncrypt c (pbkdf2 c pw saltBytes) ivBytes (readBuf (mem s) sk))),
            publicKey = pub, createdAt = now, metadata = meta \<rparr>)
   \<and> hasWallet (storeKey c saltBytes ivBytes now s walletId sk pub pw meta) walletId
   \<and> (hasWallet k (agentId cfg) \<longrightarrow>
        create c keypairSecret keypairPublic saltBytes ivBytes now k cfg pw
          = (Inl (WalletAlreadyExists (agentId cfg)), k))"
  using assms by (simp add: storeKey_files hasWallet_storeKey create_existing)

theorem storeKey_overwrites_create_guards_witness:
  "hasWallet store1 ''agent-1'' \<and> 0 < length (mem store1)
   \<and> files (storeKey toyCrypto [8] [6] 2000 store1 ''agent-1'' 0 ''PUB2'' ''pw2'' None)
        (getKeyFilePath store1 ''agent-1'')
      = Some \<lparr> version = 1, algorithm = ''aes-256-gcm'', iv = ''06'', salt = ''08'',
                authTag = ''7077320806'', encryptedKey = ''030201'',
                publicKey = ''PUB2'', createdAt = 2000, metadata = None \<rparr>
   \<and> create toyCrypto [4, 5, 6] ''PUB3'' [8] [6] 2000 store1 config1 ''pw2''
       = (Inl (WalletAlreadyExists ''agent-1''), store1)"
proof -
  have a: "0 < length (mem store1)"
    by (simp add: mem_store1)
  have r: "readBuf (mem store1) 0 = [1, 2, 3]"
    by (simp add: mem_store1)
  have h: "toHex [6] = ''06''" "toHex [8] = ''08''" "toHex [3, 2, 1] = ''030201''"
    "toHex [112, 119, 50, 8, 6] = ''7077320806''"
    by (simp_all add: toHex_def hexDigit_def)
  note t = storeKey_overwrites_create_guards [OF a, where k = store1 and cfg = config1
      and c = toyCrypto and keypairSecret = "[4, 5, 6]" and keypairPublic = "''PUB3''"
      and saltBytes = "[8]" and ivBytes = "[6]" and now = 2000 and pw = "''pw2''"
      and walletId = "''agent-1''" and pub = "''PUB2''" and meta = None]
  show ?thesis
    using t hasWallet_store1 a
    by (simp add: config1_def r h toyCrypto_def VERSION_def ALGORITHM_def)
qed

section \<open>Key store: zeroing\<close>

text \<open>
  C7, as stated, fails: after \<open>storeKey\<close> the caller's buffer (address 0, bytes 1, 2, 3)
  still holds the same bytes; \<open>Buffer.from(secretKey)\<close> is a copy, and only the copy is
  zeroed.
\<close>

theorem storeKey_caller_buffer_counterexample:
  "readBuf (mem store0) 0 = [1, 2, 3]
   \<and> readBuf (mem (storeKey toyCrypto [9] [7] 1000 store0 ''agent-1'' 0 ''PUB'' ''pw'' None)) 0
       = [1, 2, 3]
   \<and> \<not> zeroed (readBuf (mem (storeKey toyCrypto [9] [7] 1000 store0 ''agent-1'' 0 ''PUB'' ''pw'' None)) 0)"
  using mem_store1 by (simp add: store1_def store0_def zeroed_def)

text \<open>
  C7, amended: after \<open>storeKey\<close> returns, the two buffers it made, the derived key and
  its copy of the plaintext, are zeroed, and every buffer that existed before the call,
  the caller's among them, holds the bytes it held.
\<close>

theorem storeKey_zeroes_own_buffers:
  assumes "sk < length (mem s)"
  shows "length (mem (storeKey c saltBytes ivBytes now s walletId sk pub pw meta)) = length (mem s) + 2
    \<and> (\<forall>a < length (mem s).
          readBuf (mem (storeKey c saltBytes ivBytes now s walletId sk pub pw meta)) a = readBuf (mem s) a)
    \<and> readBuf (mem (storeKey c saltBytes ivBytes now s walletId sk pub pw meta)) (length (mem s))
        = replicate (length (pbkdf2 c pw saltBytes)) 0
    \<and> readBuf (mem (storeKey c saltBytes ivBytes now s walletId sk pub pw meta)) (length (mem s) + 1)
        = replicate (length (readBuf (mem s) sk)) 0"
  using assms by (simp add: storeKey_mem readBuf_fill0 readBuf_append)

theorem storeKey_zeroes_own_buffers_witness:
  "0 < length (mem store0)
   \<and> length (mem store1) = 3
   \<and> readBuf (mem store1) 0 = [1, 2, 3]
   \<and> readBuf (mem store1) 1 = [0, 0, 0]
   \<and> readBuf (mem store1) 2 = [0, 0, 0]"
proof -
  have a: "0 < length (mem store0)" by (simp add: store0_def)
  show ?thesis
    using storeKey_zeroes_own_buffers [OF a, of toyCrypto "[9]" "[7]" 1000 "''agent-1''" "''PUB''" "''pw''" None] a
    by (simp add: store1_def [symmetric] mem_store1)
qed

text \<open>
  What \<open>create\<close> leaves in memory for a new id: the key the keypair holds and the
  array it handed to \<open>storeKey\<close> keep the secret bytes; the buffers of \<open>storeKey\<close>
  and the array \<open>create\<close> filled are zeroed.
\<close>

lemma create_memory:
  assumes "\<not> hasWallet k (agentId cfg)"
  shows "mem (snd (create c keypairSecret keypairPublic saltBytes ivBytes now k cfg pw))
    = mem k @ [keypairSecret, keypairSecret, replicate (length (pbkdf2 c pw saltBytes)) 0,
               replicate (length keypairSecret) 0, replicate (length keypairSecret) 0]"
  using assms
  by (simp add: create_def Let_def split_def alloc_def storeKey_def fill0_def readBuf_append
      nth_append list_update_append)

section \<open>Key store: sanitized ids\<close>

lemma getKeyFilePath_safeId:
  "safeId a = safeId b \<Longrightarrow> getKeyFilePath s a = getKeyFilePath s b"
  by (simp add: getKeyFilePath_def)

lemma retrieveKey_safeId:
  assumes "safeId a = safeId b"
  shows "fst (retrieveKey c s a pw) =
     (case fst (retrieveKey c s b pw) of
        Inl (WalletNotFound x) \<Rightarrow> Inl (WalletNotFound a)
      | r \<Rightarrow> r)"
  using assms
  by (simp add: retrieveKey_def Let_def split_def alloc_def getKeyFilePath_def
      split: option.splits)

lemma deleteWallet_safeId:
  assumes "safeId a = safeId b"
  shows "deleteWallet k a = deleteWallet k b"
  unfolding deleteWallet_def getKeyFilePath_safeId [OF assms] ..

text \<open>
  C10. Two wallet ids with the same sanitized form name the same key file, so every
  operation of the store addresses one record for both: \<open>hasWallet\<close>,
  \<open>getWalletInfo\<close>, \<open>deleteWallet\<close> and \<open>storeKey\<close> give the same result, and
  \<open>retrieveKey\<close> the same handle or the same error (but for the raw id that the
  "Wallet not found" message quotes). After \<open>storeKey\<close> under one
  id, \<open>hasWallet\<close> holds for the other and \<open>retrieveKey\<close> under the other with the same
  password returns the first id's secret key.
\<close>

theorem sanitized_ids_share_record:
  assumes "safeId a = safeId b" and "gcmInverse c" and "sk < length (mem s)"
  shows "getKeyFilePath k a = getKeyFilePath k b
    \<and> hasWallet k a = hasWallet k b
    \<and> getWalletInfo k a = getWalletInfo k b
    \<and> deleteWallet k a = deleteWallet k b
    \<and> storeKey c saltBytes ivBytes now k a sk pub pw meta = storeKey c saltBytes ivBytes now k b sk pub pw meta
    \<and> fst (retrieveKey c k a pw) =
        (case fst (retrieveKey c k b pw) of
           Inl (WalletNotFound x) \<Rightarrow> Inl (WalletNotFound a)
         | r \<Rightarrow> r)
    \<and> hasWallet (storeKey c saltBytes ivBytes now s a sk pub pw meta) b
    \<and> (\<exists>h s'. retrieveKey c (storeKey c saltBytes ivBytes now s a sk pub pw meta) b pw = (Inr h, s')
          \<and> readBuf (mem s') (secretKey h) = readBuf (mem s) sk
          \<and> handlePublicKey h = pub)"
proof -
  have p: "getKeyFilePath k a = getKeyFilePath k b"
    using assms(1) by (rule getKeyFilePath_safeId)
  have r: "\<exists>h s'. retrieveKey c (storeKey c saltBytes ivBytes now s a sk pub pw meta) b pw = (Inr h, s')
          \<and> readBuf (mem s') (secretKey h) = readBuf (mem s) sk
          \<and> handlePublicKey h = pub"
    using retrieveKey_after_storeKey [OF assms(2) assms(3)] assms(1) by simp
  have h: "hasWallet (storeKey c saltBytes ivBytes now s a sk pub pw meta) b"
    using assms(1) by (simp add: hasWallet_storeKey)
  have st: "storeKey c saltBytes ivBytes now k a sk pub pw meta = storeKey c saltBytes ivBytes now k b sk pub pw meta"
    by (simp add: storeKey_def p)
  show ?thesis
    using p r h st retrieveKey_safeId [OF assms(1), of c k pw] deleteWallet_safeId [OF assms(1), of k]
    by (simp add: hasWallet_def getWalletInfo_def)
qed

theorem sanitized_ids_share_record_witness:
  "safeId ''agent 1'' = safeId ''agent_1'' \<and> ''agent 1'' \<noteq> ''agent_1''
   \<and> gcmInverse toyCrypto \<and> 0 < length (mem store0)
   \<and> hasWallet (storeKey toyCrypto [9] [7] 1000 store0 ''agent 1'' 0 ''PUB'' ''pw'' None) ''agent_1''
   \<and> (\<exists>h s'. retrieveKey toyCrypto
                 (storeKey toyCrypto [9] [7] 1000 store0 ''agent 1'' 0 ''PUB'' ''pw'' None)
                 ''agent_1'' ''pw'' = (Inr h, s')
          \<and> readBuf (mem s') (secretKey h) = readBuf (mem store0) 0
          \<and> handlePublicKey h = ''PUB'')"
proof -
  have i: "safeId ''agent 1'' = safeId ''agent_1''"
    by (simp add: safeId_def safeChar_def)
  have n: "''agent 1'' \<noteq> ''agent_1''" by simp
  have a: "0 < length (mem store0)" by (simp add: store0_def)
  note t = sanitized_ids_share_record [OF i gcmInverse_toyCrypto a,
        where saltBytes = "[9]" and ivBytes = "[7]" and now = 1000 and pub = "''PUB''"
          and pw = "''pw''" and meta = None and k = store0]
  show ?thesis
    using t i n gcmInverse_toyCrypto a by blast
qed

section \<open>Engine: basic facts\<close>

lemma createResult_success [simp]: "success (createResult ok act err sig amt now) = ok"
  by (simp add: createResult_def)

lemma createResult_signature [simp]: "signature (createResult ok act err sig amt now) = sig"
  by (simp add: createResult_def)

lemma createResult_error [simp]: "error (createResult ok act err sig amt now) = err"
  by (simp add: createResult_def)

lemma registerAgent_permissions [simp]:
  "permissions (registerAgent e a perms) a = Some perms"
  by (simp add: registerAgent_def)

lemma registerAgent_newEngine_rate [simp]:
  "rateLimiter (registerAgent newEngine a perms) = Map.empty"
  "volumeTracker (registerAgent newEngine a perms) = Map.empty"
  by (simp_all add: registerAgent_def newEngine_def)

lemma RateLimiter_canExecute_empty [simp]:
  "RateLimiter_canExecute Map.empty now a limit \<longleftrightarrow> 0 < limit"
  by (simp add: RateLimiter_canExecute_def)

lemma getVolume_empty [simp]: "getVolume Map.empty now a = 0"
  by (simp add: getVolume_def)

lemma validatePermissions_denied_reason:
  "\<not> allowed (validatePermissions e a p) \<Longrightarrow>
   \<exists>f. isPermissionDenied f \<and> reason (validatePermissions e a p) = Some f"
  by (auto simp: validatePermissions_def denied_def permitted_def Let_def
      split: option.splits if_splits)

lemma validatePermissions_amount:
  "permissions e a = Some perms \<Longrightarrow> maxTransactionAmount perms < amountOrZero (amount p) \<Longrightarrow>
   \<not> allowed (validatePermissions e a p)"
  by (simp add: validatePermissions_def denied_def permitted_def Let_def)

lemma execute_denied:
  "\<not> allowed (validatePermissions e a p) \<Longrightarrow>
   execute c L t0 t1 e k a pw p
     = (createResult False (action p) (reason (validatePermissions e a p)) None None t0, e, k)"
  by (simp add: execute_def Let_def)

lemma engine1_permissions: "permissions engine1 ''agent-1'' = Some perms1"
  by (simp add: engine1_def registerAgent_def newEngine_def)

subsection \<open>When the key is retrieved\<close>

lemma retrieveLog_retrieveKey:
  "retrieveLog (snd (retrieveKey c k a pw)) = retrieveLog k @ [a]"
  by (simp add: retrieveKey_def Let_def split_def split: option.splits)

lemma retrieveLog_cleanup [simp]: "retrieveLog (cleanup h k) = retrieveLog k"
  by (simp add: cleanup_def)

lemma retrieveLog_caught [simp]:
  "retrieveLog (snd (snd (caught params f now e k))) = retrieveLog k"
  by (simp add: caught_def Let_def)

lemma execute_retrieveLog_pass:
  assumes "allowed (validatePermissions e a p)"
    and "permissions e a = Some perms"
    and "RateLimiter_canExecute (rateLimiter e) t0 a (rateLimit perms)"
    and "\<not> getVolume (volumeTracker e) t0 a + amountOrZero (amount p) > maxDailyVolume perms"
  shows "retrieveLog (snd (snd (execute c L t0 t1 e k a pw p))) = retrieveLog k @ [a]"
proof -
  obtain res k1 where rk: "retrieveKey c k a pw = (res, k1)"
    by (cases "retrieveKey c k a pw")
  then have l: "retrieveLog k1 = retrieveLog k @ [a]"
    using retrieveLog_retrieveKey [of c k a pw] by simp
  show ?thesis
    using assms rk l
    by (cases res; cases "signAndSend L (readBuf (mem k1) (secretKey (projr res))) p")
      (simp_all add: execute_def Let_def)
qed



section \<open>Engine: rejection before key retrieval\<close>

text \<open>
  C1. Whenever \<open>validatePermissions\<close> fails, and so whenever the amount is above the
  identity's \<open>maxTransactionAmount\<close>, \<open>execute\<close> returns a failed result that carries
  one of the reasons of \<open>validatePermissions\<close>, and the engine and the key store are
  left exactly as they were: \<open>retrieveKey\<close> has not been called.
\<close>

theorem execute_permission_denied:
  assumes "\<not> allowed (validatePermissions e agent params)
           \<or> (\<exists>perms. permissions e agent = Some perms
                 \<and> maxTransactionAmount perms < amountOrZero (amount params))"
  shows "\<exists>f. isPermissionDenied f
           \<and> execute c L t0 t1 e k agent pw params
               = (createResult False (action params) (Some f) None None t0, e, k)
           \<and> \<not> success (fst (execute c L t0 t1 e k agent pw params))
           \<and> retrieveLog (snd (snd (execute c L t0 t1 e k agent pw params))) = retrieveLog k"
proof -
  from assms have d: "\<not> allowed (validatePermissions e agent params)"
    using validatePermissions_amount by blast
  then obtain f where f: "isPermissionDenied f" "reason (validatePermissions e agent params) = Some f"
    using validatePermissions_denied_reason by blast
  show ?thesis
    using f by (simp add: execute_denied [OF d] createResult_def)
qed

theorem execute_permission_denied_witness:
  "permissions engine1 ''agent-1'' = Some perms1
   \<and> maxTransactionAmount perms1 < amountOrZero (amount (transferSOL ''Alice'' 6))
   \<and> execute toyCrypto ledgerOk 1000 2000 engine1 store1 ''agent-1'' ''pw'' (transferSOL ''Alice'' 6)
       = (createResult False transfer_sol (Some (AmountExceedsMax 6 5)) None None 1000, engine1, store1)"
proof -
  have m: "maxTransactionAmount perms1 < amountOrZero (amount (transferSOL ''Alice'' 6))"
    by (simp add: perms1_def transferSOL_def amountOrZero_def)
  have d: "\<not> allowed (validatePermissions engine1 ''agent-1'' (transferSOL ''Alice'' 6))"
    using validatePermissions_amount [OF engine1_permissions m] .
  have r: "reason (validatePermissions engine1 ''agent-1'' (transferSOL ''Alice'' 6))
             = Some (AmountExceedsMax 6 5)"
    by (simp add: validatePermissions_def engine1_permissions perms1_def transferSOL_def
        amountOrZero_def denied_def)
  obtain f where f:
    "execute toyCrypto ledgerOk 1000 2000 engine1 store1 ''agent-1'' ''pw'' (transferSOL ''Alice'' 6)
       = (createResult False (action (transferSOL ''Alice'' 6)) (Some f) None None 1000, engine1, store1)"
    using execute_permission_denied [of engine1 "''agent-1''" "transferSOL ''Alice'' 6"
        toyCrypto ledgerOk 1000 2000 store1 "''pw''"] engine1_permissions m
    by blast
  have "f = AmountExceedsMax 6 5"
    using f r execute_denied [OF d, of toyCrypto ledgerOk 1000 2000 store1 "''pw''"]
    by (simp add: createResult_def)
  then show ?thesis
    using f engine1_permissions m by (simp add: transferSOL_def)
qed

section \<open>Engine: quota is recorded after confirmation only\<close>

lemma signAndSend_confirmed:
  "signAndSend L secret params = Inr sig \<Longrightarrow>
   \<exists>blockhash height. getLatestBlockhash L = Inr (blockhash, height)
      \<and> confirmTransaction L sig blockhash height = Inr ()"
  by (auto simp: signAndSend_def split: sum.splits prod.splits)

lemma caught_quota:
  "caught params f now e k = (r, e', k') \<Longrightarrow>
   \<not> success r \<and> rateLimiter e' = rateLimiter e \<and> volumeTracker e' = volumeTracker e"
  by (auto simp: caught_def createResult_def Let_def)

text \<open>
  C2. A call of \<open>execute\<close> whose result is not a success leaves the rate limiter and
  the volume tracker as they were; and a result is a success only when the permission,
  rate and volume checks passed, \<open>retrieveKey\<close> returned a handle, and every step up to
  \<open>confirmTransaction\<close> returned, in which case the tick and the amount are recorded.
\<close>

theorem execute_quota_after_confirmation:
  assumes "execute c L t0 t1 e k agent pw params = (r, e', k')"
  shows "(\<not> success r \<longrightarrow> rateLimiter e' = rateLimiter e \<and> volumeTracker e' = volumeTracker e)
    \<and> (success r \<longrightarrow>
          allowed (validatePermissions e agent params)
        \<and> (\<exists>h k1 sig blockhash height.
              retrieveKey c k agent pw = (Inr h, k1)
            \<and> signAndSend L (readBuf (mem k1) (secretKey h)) params = Inr sig
            \<and> getLatestBlockhash L = Inr (blockhash, height)
            \<and> confirmTransaction L sig blockhash height = Inr ()
            \<and> signature r = Some sig)
        \<and> rateLimiter e' = recordTransaction (rateLimiter e) t1 agent
        \<and> volumeTracker e' = addVolume (volumeTracker e) t1 agent (amountOrZero (amount params)))"
proof (cases "allowed (validatePermissions e agent params)")
  case False
  then show ?thesis
    using assms by (auto simp: execute_denied)
next
  case True
  show ?thesis
  proof (cases "permissions e agent")
    case None
    then show ?thesis
      using assms True caught_quota by (auto simp: execute_def Let_def)
  next
    case (Some perms)
    show ?thesis
    proof (cases "RateLimiter_canExecute (rateLimiter e) t0 agent (rateLimit perms)
        \<and> \<not> getVolume (volumeTracker e) t0 agent + amountOrZero (amount params) > maxDailyVolume perms")
      case False
      then show ?thesis
        using assms True Some by (auto simp: execute_def Let_def split: if_splits)
    next
      case pass: True
      obtain res k1 where rk: "retrieveKey c k agent pw = (res, k1)"
        by (cases "retrieveKey c k agent pw")
      show ?thesis
      proof (cases res)
        case (Inl err)
        then show ?thesis
          using assms True Some pass rk caught_quota [of params "KeyStoreError err" t1 e k1 r e' k']
          by (simp add: execute_def Let_def)
      next
        case (Inr h)
        show ?thesis
        proof (cases "signAndSend L (readBuf (mem k1) (secretKey h)) params")
          case (Inl f)
          then show ?thesis
            using assms True Some pass rk Inr caught_quota [of params f t1 e "cleanup h k1" r e' k']
            by (simp add: execute_def Let_def)
        next
          case sent: (Inr sig)
          from signAndSend_confirmed [OF sent] obtain blockhash height where
            "getLatestBlockhash L = Inr (blockhash, height)"
            "confirmTransaction L sig blockhash height = Inr ()"
            by blast
          then show ?thesis
            using assms True Some pass rk Inr sent
            by (auto simp: execute_def Let_def)
        qed
      qed
    qed
  qed
qed


lemma retrieveKey_store1:
  "\<exists>h k1. retrieveKey toyCrypto store1 ''agent-1'' ''pw'' = (Inr h, k1)
      \<and> retrieveLog k1 = [''agent-1'']"
proof -
  have a: "0 < length (mem store0)" by (simp add: store0_def)
  obtain h k1 where r: "retrieveKey toyCrypto store1 ''agent-1'' ''pw'' = (Inr h, k1)"
    using retrieveKey_after_storeKey [OF gcmInverse_toyCrypto a refl]
    unfolding store1_def by blast
  have "retrieveLog (snd (retrieveKey toyCrypto store1 ''agent-1'' ''pw'')) = [''agent-1'']"
    by (simp add: retrieveKey_def Let_def split_def store1_def store0_def split: option.splits)
  with r show ?thesis by simp
qed

lemma policy_engine1:
  "allowed (validatePermissions engine1 ''agent-1'' (transferSOL ''Alice'' 1))
   \<and> RateLimiter_canExecute (rateLimiter engine1) 1000 ''agent-1'' (rateLimit perms1)
   \<and> \<not> getVolume (volumeTracker engine1) 1000 ''agent-1''
         + amountOrZero (amount (transferSOL ''Alice'' 1)) > maxDailyVolume perms1"
  by (simp add: validatePermissions_def engine1_permissions perms1_def transferSOL_def
      amountOrZero_def permitted_def truthyString_def RateLimiter_canExecute_def getVolume_def
      engine1_def registerAgent_def newEngine_def)

lemma signAndSend_ledgerSendFails:
  "signAndSend ledgerSendFails secret (transferSOL ''Alice'' 1) = Inl (LedgerError ''blockhash not found'')"
  by (simp add: signAndSend_def ledgerSendFails_def ledgerOk_def buildTransaction_def
      transferSOL_def truthyString_def)

lemma signAndSend_ledgerOk:
  "signAndSend ledgerOk secret (transferSOL ''Alice'' 1) = Inr ''sig''"
  by (simp add: signAndSend_def ledgerOk_def buildTransaction_def transferSOL_def truthyString_def)

lemma runSendFails_result:
  "\<not> success (fst runSendFails)
   \<and> error (fst runSendFails) = Some (LedgerError ''blockhash not found'')
   \<and> retrieveLog (snd (snd runSendFails)) = [''agent-1'']"
proof -
  obtain h k1 where r: "retrieveKey toyCrypto store1 ''agent-1'' ''pw'' = (Inr h, k1)"
      "retrieveLog k1 = [''agent-1'']"
    using retrieveKey_store1 by blast
  show ?thesis
    using policy_engine1 r
    by (simp add: runSendFails_def execute_def Let_def engine1_permissions
        signAndSend_ledgerSendFails caught_def cleanup_def)
qed

lemma runOk_result:
  "success (fst runOk) \<and> signature (fst runOk) = Some ''sig''"
proof -
  obtain h k1 where r: "retrieveKey toyCrypto store1 ''agent-1'' ''pw'' = (Inr h, k1)"
    using retrieveKey_store1 by blast
  show ?thesis
    using policy_engine1 r
    by (simp add: runOk_def execute_def Let_def engine1_permissions signAndSend_ledgerOk)
qed

theorem execute_quota_after_confirmation_witness:
  "\<not> success (fst runSendFails)
   \<and> error (fst runSendFails) = Some (LedgerError ''blockhash not found'')
   \<and> retrieveLog (snd (snd runSendFails)) = [''agent-1'']
   \<and> rateLimiter (fst (snd runSendFails)) = rateLimiter engine1
   \<and> volumeTracker (fst (snd runSendFails)) = volumeTracker engine1
   \<and> success (fst runOk)
   \<and> rateLimiter (fst (snd runOk)) = recordTransaction (rateLimiter engine1) 2000 ''agent-1''
   \<and> volumeTracker (fst (snd runOk)) = addVolume (volumeTracker engine1) 2000 ''agent-1'' 1"
proof -
  have f: "execute toyCrypto ledgerSendFails 1000 2000 engine1 store1 ''agent-1'' ''pw''
       (transferSOL ''Alice'' 1) = (fst runSendFails, fst (snd runSendFails), snd (snd runSendFails))"
    by (simp add: runSendFails_def)
  have g: "execute toyCrypto ledgerOk 1000 2000 engine1 store1 ''agent-1'' ''pw''
       (transferSOL ''Alice'' 1) = (fst runOk, fst (snd runOk), snd (snd runOk))"
    by (simp add: runOk_def)
  have a: "amountOrZero (amount (transferSOL ''Alice'' 1)) = 1"
    by (simp add: transferSOL_def amountOrZero_def)
  show ?thesis
    using execute_quota_after_confirmation [OF f] execute_quota_after_confirmation [OF g]
      runSendFails_result runOk_result a
    by simp
qed

section \<open>Volume tracker\<close>

text \<open>
  C5, as stated, fails: a window started at 23:59:59 UTC (\<open>86399000\<close> ms) reads as 0 two
  seconds later, at 00:00:01 UTC of the next day, well within 24 hours of its start, and
  an amount added then starts a new record instead of being added to the old one.
\<close>

theorem volume_window_counterexample:
  "(86401000 :: int) - 86399000 \<le> 24 * 60 * 60 * 1000
   \<and> getVolume (addVolume Map.empty 86399000 ''agent-1'' 1) 86399000 ''agent-1'' = 1
   \<and> getVolume (addVolume Map.empty 86399000 ''agent-1'' 1) 86401000 ''agent-1'' = 0
   \<and> getVolume (addVolume (addVolume Map.empty 86399000 ''agent-1'' 1) 86401000 ''agent-1'' 2)
        86401000 ''agent-1'' = 2"
  by (simp add: getVolume_def addVolume_def utcDate_def)

text \<open>
  C5, amended: the tracker keeps one record per identity, keyed to the UTC calendar date
  of the clock. Reading at \<open>t2\<close> after adding \<open>amt\<close> at \<open>t1\<close> gives what was readable at
  \<open>t1\<close> plus \<open>amt\<close> when \<open>t2\<close> is on the same UTC date as \<open>t1\<close>, and 0 on any other
  date; an empty tracker reads 0; another identity's reading is not affected.
\<close>

theorem volume_calendar_day:
  "getVolume (addVolume vt t1 agent amt) t2 agent
     = (if utcDate t2 = utcDate t1 then getVolume vt t1 agent + amt else 0)
   \<and> getVolume Map.empty t2 agent = 0
   \<and> (other \<noteq> agent \<longrightarrow> getVolume (addVolume vt t1 agent amt) t2 other = getVolume vt t2 other)"
  by (auto simp: getVolume_def addVolume_def Let_def split: option.splits)

theorem volume_calendar_day_witness:
  "''agent-2'' \<noteq> ''agent-1''
   \<and> utcDate 86399000 = utcDate 1000 \<and> utcDate 86401000 \<noteq> utcDate 1000
   \<and> getVolume (addVolume (addVolume Map.empty 1000 ''agent-2'' 5) 1000 ''agent-1'' 1) 86399000 ''agent-1'' = 1
   \<and> getVolume (addVolume (addVolume Map.empty 1000 ''agent-2'' 5) 1000 ''agent-1'' 1) 86401000 ''agent-1'' = 0
   \<and> getVolume (addVolume (addVolume Map.empty 1000 ''agent-2'' 5) 1000 ''agent-1'' 1) 86399000 ''agent-2'' = 5"
proof -
  have d: "utcDate 86399000 = utcDate 1000" "utcDate 86401000 \<noteq> utcDate 1000"
    by (simp_all add: utcDate_def)
  have n: "''agent-2'' \<noteq> ''agent-1''" by simp
  have v: "getVolume (addVolume Map.empty 1000 ''agent-2'' 5) 1000 ''agent-1'' = 0"
    "getVolume (addVolume Map.empty 1000 ''agent-2'' 5) 86399000 ''agent-2'' = 5"
    by (simp_all add: getVolume_def addVolume_def utcDate_def)
  show ?thesis
    using volume_calendar_day [of "addVolume Map.empty 1000 ''agent-2'' 5" 1000 "''agent-1''" 1 86399000 "''agent-2''"]
      volume_calendar_day [of "addVolume Map.empty 1000 ''agent-2'' 5" 1000 "''agent-1''" 1 86401000 "''agent-2''"]
      d n v
    by simp
qed

section \<open>Engine: the order of the checks\<close>

lemma engine2_permissions: "permissions engine2 ''agent-1'' = Some perms1"
  by (simp add: engine2_def engine1_permissions)

lemma engine2_volume: "getVolume (volumeTracker engine2) 1000 ''agent-1'' = 8"
  by (simp add: engine2_def getVolume_def utcDate_def)

lemma validate_engine2_Bob:
  "validatePermissions engine2 ''agent-1'' (transferSOL ''Bob'' 5) = denied DestinationNotInWhitelist"
  by (simp add: validatePermissions_def engine2_permissions perms1_def transferSOL_def
      amountOrZero_def truthyString_def)

text \<open>
  C4, as stated, fails: with 8 of 10 SOL used today, a transfer of 5 SOL (within the
  per-transaction cap of 5, above the remaining 2) to a destination that is not on the
  allowlist is denied for the destination, by \<open>validatePermissions\<close> and by
  \<open>execute\<close>, not for the volume.
\<close>

theorem validatePermissions_volume_counterexample:
  "permissions engine2 ''agent-1'' = Some perms1
   \<and> amountOrZero (amount (transferSOL ''Bob'' 5)) \<le> maxTransactionAmount perms1
   \<and> amountOrZero (amount (transferSOL ''Bob'' 5))
       > maxDailyVolume perms1 - getVolume (volumeTracker engine2) 1000 ''agent-1''
   \<and> allowedDestinations perms1 = Some [''Alice'']
   \<and> reason (validatePermissions engine2 ''agent-1'' (transferSOL ''Bob'' 5))
       = Some DestinationNotInWhitelist
   \<and> error (fst (execute toyCrypto ledgerOk 1000 2000 engine2 store1 ''agent-1'' ''pw''
                   (transferSOL ''Bob'' 5)))
       = Some DestinationNotInWhitelist"
  using engine2_permissions engine2_volume
  by (simp add: validate_engine2_Bob execute_denied denied_def)
    (simp add: perms1_def transferSOL_def amountOrZero_def)

text \<open>
  C4, amended: \<open>validatePermissions\<close> checks, in this order and with the first failure
  deciding, (1) the identity is registered, (2) its level is not \<open>READ_ONLY\<close>, (3) the
  action is in \<open>allowedActions\<close>, (4) the amount is at most \<open>maxTransactionAmount\<close>,
  (5) the destination is in \<open>allowedDestinations\<close> when that list is configured and a
  destination is given. It does not look at the volume or the rate: \<open>execute\<close> checks
  the rate limit after a passed validation, and the daily volume after that. So a request
  that passes (1) to (4) and names a destination off the allowlist is denied for the
  destination, whatever the remaining allowance.
\<close>

theorem validatePermissions_order:
  "(permissions e agent = None \<longrightarrow>
      validatePermissions e agent params = denied AgentNotRegistered)
   \<and> (\<forall>perms. permissions e agent = Some perms \<longrightarrow>
        (level perms = READ_ONLY \<longrightarrow>
           validatePermissions e agent params = denied ReadOnlyAgent)
      \<and> (level perms \<noteq> READ_ONLY \<and> action params \<notin> set (allowedActions perms) \<longrightarrow>
           validatePermissions e agent params = denied (ActionNotAllowed (action params)))
      \<and> (level perms \<noteq> READ_ONLY \<and> action params \<in> set (allowedActions perms)
           \<and> amountOrZero (amount params) > maxTransactionAmount perms \<longrightarrow>
           validatePermissions e agent params
             = denied (AmountExceedsMax (amountOrZero (amount params)) (maxTransactionAmount perms)))
      \<and> (level perms \<noteq> READ_ONLY \<and> action params \<in> set (allowedActions perms)
           \<and> amountOrZero (amount params) \<le> maxTransactionAmount perms \<longrightarrow>
           validatePermissions e agent params
             = (if \<exists>dests. allowedDestinations perms = Some dests
                     \<and> truthyString (destination params)
                     \<and> the (destination params) \<notin> set dests
                then denied DestinationNotInWhitelist else permitted))
      \<and> (allowed (validatePermissions e agent params)
           \<and> \<not> RateLimiter_canExecute (rateLimiter e) t0 agent (rateLimit perms) \<longrightarrow>
           execute c L t0 t1 e k agent pw params
             = (createResult False (action params) (Some RateLimitExceeded) None None t0, e, k))
      \<and> (allowed (validatePermissions e agent params)
           \<and> RateLimiter_canExecute (rateLimiter e) t0 agent (rateLimit perms)
           \<and> getVolume (volumeTracker e) t0 agent + amountOrZero (amount params)
               > maxDailyVolume perms \<longrightarrow>
           execute c L t0 t1 e k agent pw params
             = (createResult False (action params)
                  (Some (DailyVolumeLimitExceeded (getVolume (volumeTracker e) t0 agent)
                     (maxDailyVolume perms))) None None t0, e, k)))
   \<and> validatePermissions (e\<lparr> volumeTracker := vt, rateLimiter := rl \<rparr>) agent params
       = validatePermissions e agent params"
proof -
  have 1: "permissions e agent = None \<longrightarrow>
      validatePermissions e agent params = denied AgentNotRegistered"
    by (simp add: validatePermissions_def)
  have 2: "validatePermissions (e\<lparr> volumeTracker := vt, rateLimiter := rl \<rparr>) agent params
       = validatePermissions e agent params"
    by (simp add: validatePermissions_def)
  have 3: "\<forall>perms. permissions e agent = Some perms \<longrightarrow>
        (level perms = READ_ONLY \<longrightarrow>
           validatePermissions e agent params = denied ReadOnlyAgent)
      \<and> (level perms \<noteq> READ_ONLY \<and> action params \<notin> set (allowedActions perms) \<longrightarrow>
           validatePermissions e agent params = denied (ActionNotAllowed (action params)))
      \<and> (level perms \<noteq> READ_ONLY \<and> action params \<in> set (allowedActions perms)
           \<and> amountOrZero (amount params) > maxTransactionAmount perms \<longrightarrow>
           validatePermissions e agent params
             = denied (AmountExceedsMax (amountOrZero (amount params)) (maxTransactionAmount perms)))
      \<and> (level perms \<noteq> READ_ONLY \<and> action params \<in> set (allowedActions perms)
           \<and> amountOrZero (amount params) \<le> maxTransactionAmount perms \<longrightarrow>
           validatePermissions e agent params
             = (if \<exists>dests. allowedDestinations perms = Some dests
                     \<and> truthyString (destination params)
                     \<and> the (destination params) \<notin> set dests
                then denied DestinationNotInWhitelist else permitted))"
    by (auto simp: validatePermissions_def Let_def split: option.splits)
  have 4: "\<forall>perms. permissions e agent = Some perms \<longrightarrow>
        (allowed (validatePermissions e agent params)
           \<and> \<not> RateLimiter_canExecute (rateLimiter e) t0 agent (rateLimit perms) \<longrightarrow>
           execute c L t0 t1 e k agent pw params
             = (createResult False (action params) (Some RateLimitExceeded) None None t0, e, k))
      \<and> (allowed (validatePermissions e agent params)
           \<and> RateLimiter_canExecute (rateLimiter e) t0 agent (rateLimit perms)
           \<and> getVolume (volumeTracker e) t0 agent + amountOrZero (amount params)
               > maxDailyVolume perms \<longrightarrow>
           execute c L t0 t1 e k agent pw params
             = (createResult False (action params)
                  (Some (DailyVolumeLimitExceeded (getVolume (volumeTracker e) t0 agent)
                     (maxDailyVolume perms))) None None t0, e, k))"
    by (simp add: execute_def Let_def)
  show ?thesis
    using 1 2 3 4 by blast
qed


theorem validatePermissions_order_witness:
  "permissions engine2 ''agent-1'' = Some perms1
   \<and> level perms1 \<noteq> READ_ONLY
   \<and> action (transferSOL ''Bob'' 5) \<in> set (allowedActions perms1)
   \<and> amountOrZero (amount (transferSOL ''Bob'' 5)) \<le> maxTransactionAmount perms1
   \<and> validatePermissions engine2 ''agent-1'' (transferSOL ''Bob'' 5)
       = denied DestinationNotInWhitelist
   \<and> allowed (validatePermissions engine2 ''agent-1'' (transferSOL ''Alice'' 5))
   \<and> RateLimiter_canExecute (rateLimiter engine2) 1000 ''agent-1'' (rateLimit perms1)
   \<and> getVolume (volumeTracker engine2) 1000 ''agent-1'' + amountOrZero (amount (transferSOL ''Alice'' 5))
       > maxDailyVolume perms1
   \<and> execute toyCrypto ledgerOk 1000 2000 engine2 store1 ''agent-1'' ''pw'' (transferSOL ''Alice'' 5)
       = (createResult False transfer_sol (Some (DailyVolumeLimitExceeded 8 10)) None None 1000,
          engine2, store1)"
proof -
  have p: "level perms1 \<noteq> READ_ONLY"
    "action (transferSOL ''Bob'' 5) \<in> set (allowedActions perms1)"
    "amountOrZero (amount (transferSOL ''Bob'' 5)) \<le> maxTransactionAmount perms1"
    "\<exists>dests. allowedDestinations perms1 = Some dests
        \<and> truthyString (destination (transferSOL ''Bob'' 5))
        \<and> the (destination (transferSOL ''Bob'' 5)) \<notin> set dests"
    by (simp_all add: perms1_def transferSOL_def amountOrZero_def truthyString_def)
  have q: "allowed (validatePermissions engine2 ''agent-1'' (transferSOL ''Alice'' 5))"
    "RateLimiter_canExecute (rateLimiter engine2) 1000 ''agent-1'' (rateLimit perms1)"
    "getVolume (volumeTracker engine2) 1000 ''agent-1'' + amountOrZero (amount (transferSOL ''Alice'' 5))
       > maxDailyVolume perms1"
    by (simp_all add: validatePermissions_def engine2_permissions engine2_volume perms1_def
        transferSOL_def amountOrZero_def truthyString_def permitted_def)
      (simp add: RateLimiter_canExecute_def engine2_def engine1_def registerAgent_def newEngine_def)
  have b: "validatePermissions engine2 ''agent-1'' (transferSOL ''Bob'' 5)
       = denied DestinationNotInWhitelist"
    using validatePermissions_order [where e = engine2 and agent = "''agent-1''"
        and params = "transferSOL ''Bob'' 5"] engine2_permissions p
    by simp
  have a: "execute toyCrypto ledgerOk 1000 2000 engine2 store1 ''agent-1'' ''pw'' (transferSOL ''Alice'' 5)
       = (createResult False (action (transferSOL ''Alice'' 5))
            (Some (DailyVolumeLimitExceeded (getVolume (volumeTracker engine2) 1000 ''agent-1'')
               (maxDailyVolume perms1))) None None 1000, engine2, store1)"
    using validatePermissions_order [where e = engine2 and agent = "''agent-1''"
        and params = "transferSOL ''Alice'' 5" and c = toyCrypto and L = ledgerOk and ?t0.0 = 1000
        and ?t1.0 = 2000 and k = store1 and pw = "''pw''"] engine2_permissions q
    by simp
  have v: "action (transferSOL ''Alice'' 5) = transfer_sol" "maxDailyVolume perms1 = 10"
    by (simp_all add: transferSOL_def perms1_def)
  show ?thesis
    using engine2_permissions p(1-3) b q a by (simp add: engine2_volume v)
qed

section \<open>Engine: a request without an amount\<close>

text \<open>
  C9, as stated, fails: a registered identity that is not read-only, an allowed action, no
  amount, \<open>maxTransactionAmount = 0\<close> and \<open>maxDailyVolume = 0\<close>, and still the request
  does not reach the key store: with a rate limit of 0 it is rejected for the rate, with
  a destination off the allowlist for the destination, and with a negative
  \<open>maxTransactionAmount\<close> the amount 0 is above the cap.
\<close>

theorem absent_amount_counterexample:
  "level permsZero \<noteq> READ_ONLY \<and> action noAmount \<in> set (allowedActions permsZero)
   \<and> amount noAmount = None
   \<and> maxTransactionAmount permsZero = 0 \<and> maxDailyVolume permsZero = 0
   \<and> execute toyCrypto ledgerOk 1000 2000
        (registerAgent newEngine ''agent-1'' (permsZero\<lparr> rateLimit := 0 \<rparr>))
        store1 ''agent-1'' ''pw'' noAmount
      = (createResult False transfer_sol (Some RateLimitExceeded) None None 1000,
         registerAgent newEngine ''agent-1'' (permsZero\<lparr> rateLimit := 0 \<rparr>), store1)
   \<and> execute toyCrypto ledgerOk 1000 2000
        (registerAgent newEngine ''agent-1'' (permsZero\<lparr> allowedDestinations := Some [''Alice''] \<rparr>))
        store1 ''agent-1'' ''pw'' (noAmount\<lparr> destination := Some ''Bob'' \<rparr>)
      = (createResult False transfer_sol (Some DestinationNotInWhitelist) None None 1000,
         registerAgent newEngine ''agent-1'' (permsZero\<lparr> allowedDestinations := Some [''Alice''] \<rparr>),
         store1)
   \<and> execute toyCrypto ledgerOk 1000 2000
        (registerAgent newEngine ''agent-1'' (permsZero\<lparr> maxTransactionAmount := - 1 \<rparr>))
        store1 ''agent-1'' ''pw'' noAmount
      = (createResult False transfer_sol (Some (AmountExceedsMax 0 (- 1))) None None 1000,
         registerAgent newEngine ''agent-1'' (permsZero\<lparr> maxTransactionAmount := - 1 \<rparr>), store1)"
  by (simp add: execute_def Let_def validatePermissions_def permsZero_def noAmount_def
      amountOrZero_def truthyString_def permitted_def denied_def)

text \<open>
  C9, amended: for a registered identity that is not read-only and parameters with an
  allowed action and no amount, the amount is taken as 0; the per-transaction check
  passes when \<open>maxTransactionAmount\<close> is not negative and the volume check when the
  volume used today is at most \<open>maxDailyVolume\<close>, so also when both limits are 0; and
  the request goes on to \<open>retrieveKey\<close> when, besides, the destination check and the
  rate limiter let it through.
\<close>

theorem absent_amount_passes:
  assumes "permissions e agent = Some perms"
    and "level perms \<noteq> READ_ONLY"
    and "action params \<in> set (allowedActions perms)"
    and "amount params = None"
    and "0 \<le> maxTransactionAmount perms"
    and "getVolume (volumeTracker e) t0 agent \<le> maxDailyVolume perms"
    and "\<not> (\<exists>dests. allowedDestinations perms = Some dests
              \<and> truthyString (destination params) \<and> the (destination params) \<notin> set dests)"
    and "RateLimiter_canExecute (rateLimiter e) t0 agent (rateLimit perms)"
  shows "amountOrZero (amount params) = 0
    \<and> allowed (validatePermissions e agent params)
    \<and> \<not> getVolume (volumeTracker e) t0 agent + amountOrZero (amount params) > maxDailyVolume perms
    \<and> retrieveLog (snd (snd (execute c L t0 t1 e k agent pw params))) = retrieveLog k @ [agent]"
proof -
  have z: "amountOrZero (amount params) = 0"
    using assms(4) by (simp add: amountOrZero_def)
  have v: "allowed (validatePermissions e agent params)"
    using assms(1,2,3,5,7) z
    by (auto simp: validatePermissions_def Let_def permitted_def split: option.splits)
  have d: "\<not> getVolume (volumeTracker e) t0 agent + amountOrZero (amount params) > maxDailyVolume perms"
    using assms(6) z by simp
  show ?thesis
    using z v d execute_retrieveLog_pass [OF v assms(1) assms(8) d] by simp
qed

theorem absent_amount_passes_witness:
  "permissions (registerAgent newEngine ''agent-1'' permsZero) ''agent-1'' = Some permsZero
   \<and> level permsZero \<noteq> READ_ONLY \<and> action noAmount \<in> set (allowedActions permsZero)
   \<and> amount noAmount = None
   \<and> maxTransactionAmount permsZero = 0 \<and> maxDailyVolume permsZero = 0
   \<and> retrieveLog store1 = []
   \<and> retrieveLog (snd (snd (execute toyCrypto ledgerOk 1000 2000
        (registerAgent newEngine ''agent-1'' permsZero) store1 ''agent-1'' ''pw'' noAmount)))
      = [''agent-1'']"
proof -
  have p: "level permsZero \<noteq> READ_ONLY" "action noAmount \<in> set (allowedActions permsZero)"
    "amount noAmount = None" "0 \<le> maxTransactionAmount permsZero"
    "maxTransactionAmount permsZero = 0" "maxDailyVolume permsZero = 0"
    "\<not> (\<exists>dests. allowedDestinations permsZero = Some dests
              \<and> truthyString (destination noAmount) \<and> the (destination noAmount) \<notin> set dests)"
    by (simp_all add: permsZero_def noAmount_def)
  have q: "getVolume (volumeTracker (registerAgent newEngine ''agent-1'' permsZero)) 1000 ''agent-1''
             \<le> maxDailyVolume permsZero"
    "RateLimiter_canExecute (rateLimiter (registerAgent newEngine ''agent-1'' permsZero)) 1000
       ''agent-1'' (rateLimit permsZero)"
    by (simp_all add: permsZero_def)
  have l: "retrieveLog store1 = []"
    by (simp add: store1_def store0_def)
  have r: "permissions (registerAgent newEngine ''agent-1'' permsZero) ''agent-1'' = Some permsZero"
    by (simp add: registerAgent_def)
  show ?thesis
    using absent_amount_passes [OF r p(1) p(2) p(3) p(4) q(1) p(7) q(2),
        of toyCrypto ledgerOk 2000 store1 "''pw''"] p l
    by simp
qed

section \<open>Wallet: canExecute against execute\<close>



lemma wallet_execute_result:
  "fst (wallet_execute c L t0 t1 w k params)
     = fst (execute c L t0 t1 (executionEngine w) k (agentId (config w)) (password w) params)"
  by (simp add: wallet_execute_def split_def)






lemma allowed_denied [simp]: "\<not> allowed (denied f)"
  by (simp add: denied_def)

lemma allowed_permitted [simp]: "allowed permitted"
  by (simp add: permitted_def)




end
